theory Spec2Isabelle
  imports Main "HOL-Library.Word"
begin

section \<open>Per-peer replication of a Raft leader (peer.go)\<close>

text \<open>
  The development embeds \<^verbatim>\<open>peer.go\<close>: the state a leader keeps for one follower, the
  heartbeat loop, the dispatch between append-entries and snapshot transfer, the
  reconciliation of the follower's answer, and the vote request.

  Everything the functions do besides changing the peer is recorded, in program order,
  in a list of effects: each call of the transport, each event dispatched to the server,
  each response handed to \<^verbatim>\<open>sendAsync\<close>, each send on the results channel.
  Log lines (\<^verbatim>\<open>debugln\<close>, \<^verbatim>\<open>tracef\<close>) are not recorded.
\<close>

subsection \<open>Machine types\<close>

type_synonym uint64 = "64 word"

text \<open>\<^verbatim>\<open>time.Duration\<close> is an \<^verbatim>\<open>int64\<close> of nanoseconds: arithmetic wraps, \<open>sint\<close> reads it.\<close>

type_synonym Duration = "64 word"

subsection \<open>Messages\<close>

text \<open>
  The message types are declared outside \<^verbatim>\<open>peer.go\<close>. The records below have the fields
  and accessors that \<^verbatim>\<open>peer.go\<close> reads and writes, named as it names them, with a prefix
  that keeps the records apart.
\<close>

record LogEntry =
  GetIndex :: uint64
  GetTerm :: uint64
  Command :: string

record AppendEntriesRequest =
  req_Term :: uint64
  req_PrevLogIndex :: uint64
  req_PrevLogTerm :: uint64
  req_CommitIndex :: uint64
  req_LeaderName :: string
  req_Entries :: "LogEntry list"

text \<open>
  \<^verbatim>\<open>resp.Success()\<close>, \<^verbatim>\<open>resp.Term()\<close>, \<^verbatim>\<open>resp.CommitIndex()\<close>, \<^verbatim>\<open>resp.Index()\<close> read what the
  follower sent; \<^verbatim>\<open>resp.append\<close> and \<^verbatim>\<open>resp.peer\<close> are written by the leader.
\<close>

record AppendEntriesResponse =
  resp_Success :: bool
  resp_Term :: uint64
  resp_CommitIndex :: uint64
  resp_Index :: uint64
  resp_append :: bool
  resp_peer :: string

record Snapshot =
  snap_LastIndex :: uint64
  snap_LastTerm :: uint64
  snap_State :: "8 word list"

record SnapshotRequest =
  sreq_LeaderName :: string
  sreq_LastIndex :: uint64
  sreq_LastTerm :: uint64

record SnapshotResponse =
  sresp_Success :: bool

record SnapshotRecoveryRequest =
  rreq_LeaderName :: string
  rreq_LastIndex :: uint64
  rreq_LastTerm :: uint64
  rreq_State :: "8 word list"

record SnapshotRecoveryResponse =
  rresp_Term :: uint64
  rresp_Success :: bool
  rresp_CommitIndex :: uint64

text \<open>
  The \<^verbatim>\<open>peer\<close> field of a vote message is a \<^verbatim>\<open>*Peer\<close>; the pointer is modelled by the
  name of the peer it points to, \<open>None\<close> for \<^verbatim>\<open>nil\<close>.
\<close>

record RequestVoteRequest =
  vreq_peer :: "string option"
  vreq_Term :: uint64
  vreq_LastLogIndex :: uint64
  vreq_LastLogTerm :: uint64
  vreq_CandidateName :: string

record RequestVoteResponse =
  vresp_peer :: "string option"
  vresp_Term :: uint64
  vresp_VoteGranted :: bool

text \<open>
  Modelled from the spec: \<^verbatim>\<open>newAppendEntriesRequest\<close> is not in \<^verbatim>\<open>src/\<close>. The spec gives the
  request as \<open>{term, prevIndex, prevTerm, leaderCommitIndex, leaderId, entries}\<close>; the
  constructor stores its six arguments in that order.
\<close>

definition newAppendEntriesRequest ::
  "uint64 \<Rightarrow> uint64 \<Rightarrow> uint64 \<Rightarrow> uint64 \<Rightarrow> string \<Rightarrow> LogEntry list \<Rightarrow> AppendEntriesRequest" where
  "newAppendEntriesRequest term prevLogIndex prevLogTerm commitIndex leaderName entries =
     \<lparr>req_Term = term, req_PrevLogIndex = prevLogIndex, req_PrevLogTerm = prevLogTerm,
      req_CommitIndex = commitIndex, req_LeaderName = leaderName, req_Entries = entries\<rparr>"

text \<open>
  Modelled from the spec: \<^verbatim>\<open>newSnapshotRequest\<close> is not in \<^verbatim>\<open>src/\<close>. The spec gives the
  offer as \<open>{leaderId, snapshotMetadata}\<close>: the leader's name and the snapshot's last
  included index and term.
\<close>

definition newSnapshotRequest :: "string \<Rightarrow> Snapshot \<Rightarrow> SnapshotRequest" where
  "newSnapshotRequest leaderName snapshot =
     \<lparr>sreq_LeaderName = leaderName, sreq_LastIndex = snap_LastIndex snapshot,
      sreq_LastTerm = snap_LastTerm snapshot\<rparr>"

text \<open>
  Modelled from the spec: \<^verbatim>\<open>newSnapshotRecoveryRequest\<close> is not in \<^verbatim>\<open>src/\<close>. The spec gives
  the request as \<open>{leaderId, snapshotData}\<close>, the full snapshot payload including its last
  included index, which \<^verbatim>\<open>peer.go\<close> reads back as \<^verbatim>\<open>req.LastIndex\<close>.
\<close>

definition newSnapshotRecoveryRequest :: "string \<Rightarrow> Snapshot \<Rightarrow> SnapshotRecoveryRequest" where
  "newSnapshotRecoveryRequest leaderName snapshot =
     \<lparr>rreq_LeaderName = leaderName, rreq_LastIndex = snap_LastIndex snapshot,
      rreq_LastTerm = snap_LastTerm snapshot, rreq_State = snap_State snapshot\<rparr>"

subsection \<open>The peer, the server it belongs to, the transport\<close>

text \<open>
  \<^verbatim>\<open>failedHeartbeats\<close> is a \<^verbatim>\<open>float64\<close> that starts at 0 and is only ever set to 0 or
  incremented, so it holds a natural number; \<open>float64_inc\<close> below is its \<^verbatim>\<open>++\<close>.
  \<^verbatim>\<open>heartbeatTicker\<close> is the channel of the running ticker, modelled by the ticker's
  period; \<open>None\<close> is the \<^verbatim>\<open>nil\<close> channel, which never fires.
  The fields \<^verbatim>\<open>server\<close>, \<^verbatim>\<open>mutex\<close> and \<^verbatim>\<open>stopChan\<close> are not state of the model: the server
  is an argument of every function, and the signals on \<^verbatim>\<open>stopChan\<close> are an input of the
  heartbeat loop.
\<close>

record Peer =
  Name :: string
  ConnectionString :: string
  prevLogIndex :: uint64
  heartbeatInterval :: Duration
  heartbeatTicker :: "Duration option"
  failedHeartbeats :: nat

text \<open>
  What \<^verbatim>\<open>peer.go\<close> reads of the server. \<^verbatim>\<open>getEntriesAfter\<close> is the log accessor
  \<^verbatim>\<open>p.server.log.getEntriesAfter\<close>: its first result is \<open>None\<close> for a \<^verbatim>\<open>nil\<close> slice and
  \<open>Some es\<close> for a slice that is not \<^verbatim>\<open>nil\<close> (\<open>Some []\<close> is the empty one).
  \<^verbatim>\<open>log_CommitIndex\<close> is \<^verbatim>\<open>p.server.log.CommitIndex()\<close>.
\<close>

record server =
  name :: string
  currentTerm :: uint64
  snapshot :: Snapshot
  maxLogEntriesPerRequest :: uint64
  getEntriesAfter :: "uint64 \<Rightarrow> uint64 \<Rightarrow> LogEntry list option \<times> uint64"
  log_CommitIndex :: uint64

text \<open>
  Modelled from the spec: the accessor \<^verbatim>\<open>server.Term()\<close> is not in \<^verbatim>\<open>src/\<close>. The spec
  calls its value the local term, the server's current term.
\<close>

definition server_Term :: "server \<Rightarrow> uint64" where
  "server_Term s = currentTerm s"

text \<open>
  The transport is an interface of four calls. Each returns a response or \<^verbatim>\<open>nil\<close>
  (\<open>None\<close>) when the peer did not answer.
\<close>

record Transporter =
  SendAppendEntriesRequest ::
    "server \<Rightarrow> Peer \<Rightarrow> AppendEntriesRequest \<Rightarrow> AppendEntriesResponse option"
  SendSnapshotRequest :: "server \<Rightarrow> Peer \<Rightarrow> SnapshotRequest \<Rightarrow> SnapshotResponse option"
  SendSnapshotRecoveryRequest ::
    "server \<Rightarrow> Peer \<Rightarrow> SnapshotRecoveryRequest \<Rightarrow> SnapshotRecoveryResponse option"
  SendVoteRequest :: "server \<Rightarrow> Peer \<Rightarrow> RequestVoteRequest \<Rightarrow> RequestVoteResponse option"

subsection \<open>Effects\<close>

text \<open>
  \<open>HeartbeatIntervalEvent\<close> carries the peer it is about (by name), \<open>HeartbeatEvent\<close> the
  measured duration of the flush.
\<close>

datatype event =
  HeartbeatIntervalEvent string
| HeartbeatEvent Duration

datatype async_response =
  AppendResp AppendEntriesResponse
| RecoveryResp SnapshotRecoveryResponse

datatype effect =
  AppendEntriesSent AppendEntriesRequest
| SnapshotSent SnapshotRequest
| SnapshotRecoverySent SnapshotRecoveryRequest
| VoteSent RequestVoteRequest
| DispatchEvent event
| SendAsync async_response
| ChanSend RequestVoteResponse

subsection \<open>Constructor, accessors, clone\<close>

definition newPeer :: "string \<Rightarrow> string \<Rightarrow> Duration \<Rightarrow> Peer" where
  "newPeer nm connectionString interval =
     \<lparr>Name = nm, ConnectionString = connectionString, prevLogIndex = 0,
      heartbeatInterval = interval, heartbeatTicker = None, failedHeartbeats = 0\<rparr>"

definition setHeartbeatInterval :: "Duration \<Rightarrow> Peer \<Rightarrow> Peer" where
  "setHeartbeatInterval duration p = p\<lparr>heartbeatInterval := duration\<rparr>"

definition getPrevLogIndex :: "Peer \<Rightarrow> uint64" where
  "getPrevLogIndex p = prevLogIndex p"

definition setPrevLogIndex :: "uint64 \<Rightarrow> Peer \<Rightarrow> Peer" where
  "setPrevLogIndex v p = p\<lparr>prevLogIndex := v\<rparr>"

definition clone :: "Peer \<Rightarrow> Peer" where
  "clone p =
     \<lparr>Name = Name p, ConnectionString = ConnectionString p, prevLogIndex = prevLogIndex p,
      heartbeatInterval = 0, heartbeatTicker = None, failedHeartbeats = 0\<rparr>"

subsection \<open>Heartbeat timing\<close>

text \<open>\<^verbatim>\<open>time.Tick(d)\<close> returns \<^verbatim>\<open>nil\<close> when \<open>d \<le> 0\<close> and a ticker of period \<open>d\<close> otherwise.\<close>

definition time_Tick :: "Duration \<Rightarrow> Duration option" where
  "time_Tick d = (if sint d \<le> 0 then None else Some d)"

text \<open>
  \<^verbatim>\<open>p.failedHeartbeats++\<close> on a \<^verbatim>\<open>float64\<close>: exact below \<open>2^53\<close>; at \<open>2^53\<close> the sum
  \<open>2^53 + 1\<close> is not representable and rounds (to even) back to \<open>2^53\<close>, where the
  counter therefore stays.
\<close>

definition float64_inc :: "nat \<Rightarrow> nat" where
  "float64_inc x = (if x < 2 ^ 53 then x + 1 else x)"

text \<open>
  \<^verbatim>\<open>time.Duration(math.Pow(float64(2), k))\<close> for a counter value \<open>k\<close>: the power is exact,
  and the conversion to \<^verbatim>\<open>int64\<close> is exact when the power fits, that is for \<open>k \<le> 62\<close>.
  Beyond, Go leaves the result of the conversion to the implementation; \<open>oor k\<close> stands
  for that result, and is an argument of every function that computes the interval.
\<close>

definition pow2_Duration :: "(nat \<Rightarrow> Duration) \<Rightarrow> nat \<Rightarrow> Duration" where
  "pow2_Duration oor k = (if k \<le> 62 then 2 ^ k else oor k)"

definition heartbeatDuration :: "(nat \<Rightarrow> Duration) \<Rightarrow> Peer \<Rightarrow> Duration" where
  "heartbeatDuration oor p = heartbeatInterval p * pow2_Duration oor (failedHeartbeats p)"

definition resetHeartbeatInterval :: "Peer \<Rightarrow> Peer" where
  "resetHeartbeatInterval p =
     p\<lparr>failedHeartbeats := 0, heartbeatTicker := time_Tick (heartbeatInterval p)\<rparr>"

definition backoffHeartbeat :: "(nat \<Rightarrow> Duration) \<Rightarrow> Peer \<Rightarrow> Peer" where
  "backoffHeartbeat oor p =
     (let p1 = p\<lparr>failedHeartbeats := float64_inc (failedHeartbeats p)\<rparr>
      in p1\<lparr>heartbeatTicker := time_Tick (heartbeatDuration oor p1)\<rparr>)"

subsection \<open>Append entries\<close>

text \<open>
  The block of \<^verbatim>\<open>sendAppendEntriesRequest\<close> between \<^verbatim>\<open>p.mutex.Lock()\<close> and
  \<^verbatim>\<open>p.mutex.Unlock()\<close>: it updates \<^verbatim>\<open>p.prevLogIndex\<close> and, on a success that appended an
  entry of the current term, sets \<^verbatim>\<open>resp.append\<close>.
\<close>

definition reconcile ::
  "server \<Rightarrow> Peer \<Rightarrow> AppendEntriesRequest \<Rightarrow> AppendEntriesResponse \<Rightarrow>
   Peer \<times> AppendEntriesResponse" where
  "reconcile s p req resp =
     (if resp_Success resp then
        (if length (req_Entries req) > 0 then
           (p\<lparr>prevLogIndex := GetIndex (req_Entries req ! (length (req_Entries req) - 1))\<rparr>,
            if GetTerm (req_Entries req ! (length (req_Entries req) - 1)) = currentTerm s
            then resp\<lparr>resp_append := True\<rparr> else resp)
         else (p, resp))
      else if resp_Term resp > server_Term s then (p, resp)
      else if resp_Term resp = req_Term req \<and> resp_CommitIndex resp \<ge> prevLogIndex p then
        (p\<lparr>prevLogIndex := resp_CommitIndex resp\<rparr>, resp)
      else if prevLogIndex p > 0 then
        (let p1 = p\<lparr>prevLogIndex := prevLogIndex p - 1\<rparr>
         in (if prevLogIndex p1 > resp_Index resp
             then p1\<lparr>prevLogIndex := resp_Index resp\<rparr> else p1, resp))
      else (p, resp))"

definition sendAppendEntriesRequest ::
  "(nat \<Rightarrow> Duration) \<Rightarrow> server \<Rightarrow> Transporter \<Rightarrow> Peer \<Rightarrow> AppendEntriesRequest \<Rightarrow>
   Peer \<times> effect list" where
  "sendAppendEntriesRequest oor s tr p req =
     (case SendAppendEntriesRequest tr s p req of
        None \<Rightarrow>
          (let p1 = backoffHeartbeat oor p
           in (p1, [AppendEntriesSent req, DispatchEvent (HeartbeatIntervalEvent (Name p1))]))
      | Some resp \<Rightarrow>
          (let p1 = (if failedHeartbeats p \<noteq> 0 then resetHeartbeatInterval p else p);
               (p2, resp2) = reconcile s p1 req resp;
               resp3 = resp2\<lparr>resp_peer := Name p2\<rparr>
           in (p2, [AppendEntriesSent req, SendAsync (AppendResp resp3)])))"

subsection \<open>Snapshot transfer\<close>

definition sendSnapshotRecoveryRequest ::
  "server \<Rightarrow> Transporter \<Rightarrow> Peer \<Rightarrow> Peer \<times> effect list" where
  "sendSnapshotRecoveryRequest s tr p =
     (let req = newSnapshotRecoveryRequest (name s) (snapshot s)
      in case SendSnapshotRecoveryRequest tr s p req of
           None \<Rightarrow> (p, [SnapshotRecoverySent req])
         | Some resp \<Rightarrow>
             (if rresp_Success resp
              then (p\<lparr>prevLogIndex := rreq_LastIndex req\<rparr>,
                    [SnapshotRecoverySent req, SendAsync (RecoveryResp resp)])
              else (p, [SnapshotRecoverySent req])))"

definition sendSnapshotRequest ::
  "server \<Rightarrow> Transporter \<Rightarrow> Peer \<Rightarrow> SnapshotRequest \<Rightarrow> Peer \<times> effect list" where
  "sendSnapshotRequest s tr p req =
     (case SendSnapshotRequest tr s p req of
        None \<Rightarrow> (p, [SnapshotSent req])
      | Some resp \<Rightarrow>
          (if sresp_Success resp
           then (let (p1, effs) = sendSnapshotRecoveryRequest s tr p
                 in (p1, SnapshotSent req # effs))
           else (p, [SnapshotSent req])))"

subsection \<open>Flush\<close>

definition flush ::
  "(nat \<Rightarrow> Duration) \<Rightarrow> server \<Rightarrow> Transporter \<Rightarrow> Peer \<Rightarrow> Peer \<times> effect list" where
  "flush oor s tr p =
     (let prevLogIndex' = getPrevLogIndex p;
          term = currentTerm s;
          (entries, prevLogTerm) = getEntriesAfter s prevLogIndex' (maxLogEntriesPerRequest s)
      in case entries of
           Some es \<Rightarrow>
             sendAppendEntriesRequest oor s tr p
               (newAppendEntriesRequest term prevLogIndex' prevLogTerm (log_CommitIndex s)
                  (name s) es)
         | None \<Rightarrow> sendSnapshotRequest s tr p (newSnapshotRequest (name s) (snapshot s)))"

subsection \<open>Vote requests\<close>

text \<open>
  The results channel \<^verbatim>\<open>c\<close> is the caller's; what is sent on it is the effect \<open>ChanSend\<close>.
  The peer itself is not changed.
\<close>

definition sendVoteRequest ::
  "server \<Rightarrow> Transporter \<Rightarrow> Peer \<Rightarrow> RequestVoteRequest \<Rightarrow> effect list" where
  "sendVoteRequest s tr p req =
     (let req1 = req\<lparr>vreq_peer := Some (Name p)\<rparr>
      in case SendVoteRequest tr s p req1 of
           Some resp \<Rightarrow> [VoteSent req1, ChanSend (resp\<lparr>vresp_peer := Some (Name p)\<rparr>)]
         | None \<Rightarrow> [VoteSent req1])"

subsection \<open>The heartbeat loop\<close>

text \<open>
  One iteration of the loop is one case of its \<^verbatim>\<open>select\<close>: a signal on \<^verbatim>\<open>stopChan\<close> with
  its flag, or a tick, with the duration that the loop then measures for the flush. The
  loop reads the server and calls the transport as they are at that iteration, so each
  iteration comes with both. The list is what happens to the loop, in order; at its end
  the loop is still waiting in the \<^verbatim>\<open>select\<close>. A \<^verbatim>\<open>nil\<close> ticker channel is never ready, so
  a tick listed while the ticker is \<^verbatim>\<open>nil\<close> does not happen and is passed over.

  \<^verbatim>\<open>startHeartbeat\<close> makes \<^verbatim>\<open>stopChan\<close>, starts \<^verbatim>\<open>heartbeat\<close> and waits for its handshake;
  \<^verbatim>\<open>stopHeartbeat(flush)\<close> sends \<^verbatim>\<open>flush\<close> on \<^verbatim>\<open>stopChan\<close>, which the loop receives as
  \<open>StopChan flush\<close>. \<open>heartbeat\<close> is the function after the handshake: it starts the ticker
  at the base interval and enters the loop.
\<close>

datatype select_case = StopChan bool | Ticker Duration

datatype loop_status = Returned | Waiting

fun heartbeat_loop ::
  "(nat \<Rightarrow> Duration) \<Rightarrow> Peer \<Rightarrow> (select_case \<times> server \<times> Transporter) list \<Rightarrow>
   Peer \<times> effect list \<times> loop_status" where
  "heartbeat_loop oor p [] = (p, [], Waiting)"
| "heartbeat_loop oor p ((StopChan fl, s, tr) # rest) =
     (if fl then (let (p1, effs) = flush oor s tr p in (p1, effs, Returned))
      else (p, [], Returned))"
| "heartbeat_loop oor p ((Ticker d, s, tr) # rest) =
     (case heartbeatTicker p of
        None \<Rightarrow> heartbeat_loop oor p rest
      | Some period \<Rightarrow>
          (let (p1, effs1) = flush oor s tr p;
               (p2, effs2, st) = heartbeat_loop oor p1 rest
           in (p2, effs1 @ [DispatchEvent (HeartbeatEvent d)] @ effs2, st)))"

definition heartbeat ::
  "(nat \<Rightarrow> Duration) \<Rightarrow> Peer \<Rightarrow> (select_case \<times> server \<times> Transporter) list \<Rightarrow>
   Peer \<times> effect list \<times> loop_status" where
  "heartbeat oor p evs =
     heartbeat_loop oor (p\<lparr>heartbeatTicker := time_Tick (heartbeatInterval p)\<rparr>) evs"

text \<open>
  A flush begins with exactly one call of the transport, an append-entries request or a
  snapshot offer; counting those in the effects counts the flush attempts.
\<close>

fun is_flush_send :: "effect \<Rightarrow> bool" where
  "is_flush_send (AppendEntriesSent _) = True"
| "is_flush_send (SnapshotSent _) = True"
| "is_flush_send _ = False"

definition flush_attempts :: "effect list \<Rightarrow> nat" where
  "flush_attempts effs = length (filter is_flush_send effs)"

text \<open>Recognisers for the effects that the properties speak about.\<close>

fun is_append_send :: "effect \<Rightarrow> bool" where
  "is_append_send (AppendEntriesSent _) = True"
| "is_append_send _ = False"

fun is_snapshot_send :: "effect \<Rightarrow> bool" where
  "is_snapshot_send (SnapshotSent _) = True"
| "is_snapshot_send _ = False"

fun is_interval_event :: "effect \<Rightarrow> bool" where
  "is_interval_event (DispatchEvent (HeartbeatIntervalEvent _)) = True"
| "is_interval_event _ = False"

subsection \<open>Consecutive flushes\<close>

text \<open>
  The flushes of one peer are strictly sequential. \<open>flushes\<close> runs one flush per round, each
  against the server and the transport of that round, and returns the peer at the end.
\<close>

fun flushes :: "(nat \<Rightarrow> Duration) \<Rightarrow> Peer \<Rightarrow> (server \<times> Transporter) list \<Rightarrow> Peer" where
  "flushes oor p [] = p"
| "flushes oor p ((s, tr) # rounds) = flushes oor (fst (flush oor s tr p)) rounds"

subsection \<open>Example inputs\<close>

text \<open>
  A follower \<open>b\<close> matched up to index 10, with a 50 ms heartbeat, and a leader \<open>a\<close> in term 3
  whose log holds entries 11 and 12 and whose snapshot covers the log up to index 8:
  the log has nothing to return for an index below 8.
\<close>

definition ex_peer :: Peer where
  "ex_peer =
     \<lparr>Name = ''b'', ConnectionString = ''b:7001'', prevLogIndex = 10,
      heartbeatInterval = 50000000, heartbeatTicker = Some 50000000, failedHeartbeats = 0\<rparr>"

definition ex_entries :: "LogEntry list" where
  "ex_entries =
     [\<lparr>GetIndex = 11, GetTerm = 2, Command = ''x''\<rparr>,
      \<lparr>GetIndex = 12, GetTerm = 3, Command = ''y''\<rparr>]"

definition ex_server :: server where
  "ex_server =
     \<lparr>name = ''a'', currentTerm = 3,
      snapshot = \<lparr>snap_LastIndex = 8, snap_LastTerm = 2, snap_State = [1, 2, 3]\<rparr>,
      maxLogEntriesPerRequest = 5,
      getEntriesAfter = (\<lambda>i m. if i < 8 then (None, 0) else (Some ex_entries, 2)),
      log_CommitIndex = 11\<rparr>"

text \<open>A transport that gives the same four answers whatever it is asked.\<close>

definition const_transport ::
  "AppendEntriesResponse option \<Rightarrow> SnapshotResponse option \<Rightarrow>
   SnapshotRecoveryResponse option \<Rightarrow> RequestVoteResponse option \<Rightarrow> Transporter" where
  "const_transport a b c d =
     \<lparr>SendAppendEntriesRequest = (\<lambda>s p r. a), SendSnapshotRequest = (\<lambda>s p r. b),
      SendSnapshotRecoveryRequest = (\<lambda>s p r. c), SendVoteRequest = (\<lambda>s p r. d)\<rparr>"

definition ex_append_response :: "bool \<Rightarrow> uint64 \<Rightarrow> uint64 \<Rightarrow> uint64 \<Rightarrow> AppendEntriesResponse" where
  "ex_append_response ok term commitIndex index =
     \<lparr>resp_Success = ok, resp_Term = term, resp_CommitIndex = commitIndex,
      resp_Index = index, resp_append = False, resp_peer = []\<rparr>"

text \<open>The request that \<open>flush\<close> builds for \<open>ex_peer\<close> on \<open>ex_server\<close>.\<close>

definition ex_request :: AppendEntriesRequest where
  "ex_request = newAppendEntriesRequest 3 10 2 11 ''a'' ex_entries"

text \<open>
  The same follower fallen behind the snapshot, matched up to index 5 only, after three
  heartbeats without an answer (the ticker runs at eight times the base interval).
\<close>

definition ex_peer_behind :: Peer where
  "ex_peer_behind =
     \<lparr>Name = ''b'', ConnectionString = ''b:7001'', prevLogIndex = 5,
      heartbeatInterval = 50000000, heartbeatTicker = Some 400000000, failedHeartbeats = 3\<rparr>"

text \<open>The follower of \<open>ex_peer\<close> after two heartbeats without an answer.\<close>

definition ex_peer_backed_off :: Peer where
  "ex_peer_backed_off =
     \<lparr>Name = ''b'', ConnectionString = ''b:7001'', prevLogIndex = 10,
      heartbeatInterval = 50000000, heartbeatTicker = Some 200000000, failedHeartbeats = 2\<rparr>"

definition ex_vote_request :: RequestVoteRequest where
  "ex_vote_request =
     \<lparr>vreq_peer = None, vreq_Term = 4, vreq_LastLogIndex = 12, vreq_LastLogTerm = 3,
      vreq_CandidateName = ''a''\<rparr>"

definition ex_vote_response :: RequestVoteResponse where
  "ex_vote_response = \<lparr>vresp_peer = None, vresp_Term = 4, vresp_VoteGranted = True\<rparr>"

definition ex_recovery_response :: "bool \<Rightarrow> SnapshotRecoveryResponse" where
  "ex_recovery_response ok = \<lparr>rresp_Term = 3, rresp_Success = ok, rresp_CommitIndex = 8\<rparr>"

text \<open>The out-of-range conversion as amd64 does it: the smallest \<^verbatim>\<open>int64\<close>.\<close>

definition ex_oor :: "nat \<Rightarrow> Duration" where
  "ex_oor k = 2 ^ 63"

section \<open>Properties\<close>

subsection \<open>Counting flushes\<close>

lemma flush_attempts_flush: "flush_attempts (snd (flush oor s tr p)) = 1"
  by (simp add: flush_def sendAppendEntriesRequest_def sendSnapshotRequest_def
      sendSnapshotRecoveryRequest_def flush_attempts_def Let_def
      split: option.split prod.split)

subsection \<open>Auxiliary facts\<close>

lemma sendAppend_Some:
  "SendAppendEntriesRequest tr s p req = Some resp \<Longrightarrow>
   sendAppendEntriesRequest oor s tr p req =
     (let p1 = (if failedHeartbeats p \<noteq> 0 then resetHeartbeatInterval p else p)
      in (fst (reconcile s p1 req resp),
          [AppendEntriesSent req,
           SendAsync (AppendResp (snd (reconcile s p1 req resp)
              \<lparr>resp_peer := Name (fst (reconcile s p1 req resp))\<rparr>))]))"
  by (simp add: sendAppendEntriesRequest_def Let_def split: prod.split)

lemma sendAppend_None:
  "SendAppendEntriesRequest tr s p req = None \<Longrightarrow>
   sendAppendEntriesRequest oor s tr p req =
     (backoffHeartbeat oor p,
      [AppendEntriesSent req, DispatchEvent (HeartbeatIntervalEvent (Name p))])"
  by (simp add: sendAppendEntriesRequest_def Let_def backoffHeartbeat_def)

lemma reset_fields [simp]:
  "prevLogIndex (resetHeartbeatInterval p) = prevLogIndex p"
  "Name (resetHeartbeatInterval p) = Name p"
  "failedHeartbeats (resetHeartbeatInterval p) = 0"
  "heartbeatInterval (resetHeartbeatInterval p) = heartbeatInterval p"
  by (simp_all add: resetHeartbeatInterval_def)

lemma backoff_fields [simp]:
  "prevLogIndex (backoffHeartbeat oor p) = prevLogIndex p"
  "Name (backoffHeartbeat oor p) = Name p"
  "failedHeartbeats (backoffHeartbeat oor p) = float64_inc (failedHeartbeats p)"
  "heartbeatInterval (backoffHeartbeat oor p) = heartbeatInterval p"
  "heartbeatTicker (backoffHeartbeat oor p) =
     time_Tick (heartbeatInterval p * pow2_Duration oor (float64_inc (failedHeartbeats p)))"
  by (simp_all add: backoffHeartbeat_def heartbeatDuration_def Let_def)

lemma reconcile_keeps [simp]:
  "failedHeartbeats (fst (reconcile s p req resp)) = failedHeartbeats p"
  "heartbeatTicker (fst (reconcile s p req resp)) = heartbeatTicker p"
  "heartbeatInterval (fst (reconcile s p req resp)) = heartbeatInterval p"
  "Name (fst (reconcile s p req resp)) = Name p"
  by (simp_all add: reconcile_def Let_def)

lemma reconcile_failure:
  "\<not> resp_Success resp \<Longrightarrow>
   prevLogIndex (fst (reconcile s p req resp)) =
     (if resp_Term resp > server_Term s then prevLogIndex p
      else if resp_Term resp = req_Term req \<and> resp_CommitIndex resp \<ge> prevLogIndex p
        then resp_CommitIndex resp
      else if prevLogIndex p > 0
        then (if prevLogIndex p - 1 > resp_Index resp then resp_Index resp
              else prevLogIndex p - 1)
      else prevLogIndex p)"
  by (simp add: reconcile_def Let_def)

lemma reconcile_prevLogIndex_reset:
  "prevLogIndex (fst (reconcile s (resetHeartbeatInterval p) req resp)) =
   prevLogIndex (fst (reconcile s p req resp))"
  by (simp add: reconcile_def resetHeartbeatInterval_def Let_def)

lemma sendAppend_prevLogIndex:
  "SendAppendEntriesRequest tr s p req = Some resp \<Longrightarrow>
   prevLogIndex (fst (sendAppendEntriesRequest oor s tr p req)) =
   prevLogIndex (fst (reconcile s p req resp))"
  by (simp add: sendAppend_Some Let_def reconcile_prevLogIndex_reset)

lemma sendAppend_prevLogIndex_failure:
  assumes "SendAppendEntriesRequest tr s p req = Some resp" "\<not> resp_Success resp"
  shows "prevLogIndex (fst (sendAppendEntriesRequest oor s tr p req)) =
     (if resp_Term resp > server_Term s then prevLogIndex p
      else if resp_Term resp = req_Term req \<and> resp_CommitIndex resp \<ge> prevLogIndex p
        then resp_CommitIndex resp
      else if prevLogIndex p > 0
        then (if prevLogIndex p - 1 > resp_Index resp then resp_Index resp
              else prevLogIndex p - 1)
      else prevLogIndex p)"
  unfolding sendAppend_prevLogIndex [OF assms(1)] by (rule reconcile_failure [OF assms(2)])

lemma uint_dec:
  fixes x :: uint64
  assumes "0 < x"
  shows "uint (x - 1) = uint x - 1"
proof -
  from assms have "x \<noteq> 0"
    by auto
  then have "0 < unat x"
    using unat_gt_0 [of x] by blast
  moreover have "uint x = int (unat x)"
    by (rule uint_nat)
  ultimately have "1 \<le> uint x"
    by linarith
  then have "uint (1 :: uint64) \<le> uint x"
    by simp
  then show ?thesis
    using uint_sub_lem [where x = x and y = 1] by simp
qed

lemma word_lt_pos:
  fixes x y :: uint64
  shows "y < x \<Longrightarrow> 0 < x"
  by (auto simp add: word_less_nat_alt)

lemma sint_mult_pow2:
  fixes a :: Duration
  assumes "0 \<le> sint a" "sint a * 2 ^ k < 2 ^ 63"
  shows "sint (a * 2 ^ k) = sint a * 2 ^ k"
proof -
  have "a * 2 ^ k = word_of_int (sint a * 2 ^ k)"
    by simp
  then have "sint (a * 2 ^ k) = signed_take_bit (LENGTH(64) - 1) (sint a * 2 ^ k)"
    by (simp only: sint_sbintrunc')
  also have "\<dots> = sint a * 2 ^ k"
  proof (rule signed_take_bit_int_eq_self)
    have "(0::int) \<le> sint a * 2 ^ k"
      using assms(1) by simp
    moreover have "(0::int) < 2 ^ (LENGTH(64) - 1)"
      by simp
    ultimately show "- (2 ^ (LENGTH(64) - 1)) \<le> sint a * 2 ^ k"
      by linarith
    show "sint a * 2 ^ k < 2 ^ (LENGTH(64) - 1)"
      using assms(2) by simp
  qed
  finally show ?thesis .
qed

lemma flush_Some:
  "getEntriesAfter s (prevLogIndex p) (maxLogEntriesPerRequest s) = (Some es, plt) \<Longrightarrow>
   flush oor s tr p =
     sendAppendEntriesRequest oor s tr p
       (newAppendEntriesRequest (currentTerm s) (prevLogIndex p) plt (log_CommitIndex s)
          (name s) es)"
  by (simp add: flush_def getPrevLogIndex_def)

lemma flush_None:
  "getEntriesAfter s (prevLogIndex p) (maxLogEntriesPerRequest s) = (None, plt) \<Longrightarrow>
   flush oor s tr p = sendSnapshotRequest s tr p (newSnapshotRequest (name s) (snapshot s))"
  by (simp add: flush_def getPrevLogIndex_def)

lemma sendSnapshotRecovery_cases:
  "sendSnapshotRecoveryRequest s tr p =
     (case SendSnapshotRecoveryRequest tr s p (newSnapshotRecoveryRequest (name s) (snapshot s)) of
        None \<Rightarrow> (p, [SnapshotRecoverySent (newSnapshotRecoveryRequest (name s) (snapshot s))])
      | Some resp \<Rightarrow>
          if rresp_Success resp
          then (p\<lparr>prevLogIndex := snap_LastIndex (snapshot s)\<rparr>,
                [SnapshotRecoverySent (newSnapshotRecoveryRequest (name s) (snapshot s)),
                 SendAsync (RecoveryResp resp)])
          else (p, [SnapshotRecoverySent (newSnapshotRecoveryRequest (name s) (snapshot s))]))"
  by (simp add: sendSnapshotRecoveryRequest_def Let_def newSnapshotRecoveryRequest_def
      split: option.split)

lemma snapshot_path_keeps:
  "failedHeartbeats (fst (sendSnapshotRequest s tr p req)) = failedHeartbeats p"
  "heartbeatTicker (fst (sendSnapshotRequest s tr p req)) = heartbeatTicker p"
  "heartbeatInterval (fst (sendSnapshotRequest s tr p req)) = heartbeatInterval p"
  by (simp_all add: sendSnapshotRequest_def sendSnapshotRecovery_cases
      split: option.split prod.split)

lemma snapshot_path_effects:
  "\<forall>e \<in> set (snd (sendSnapshotRequest s tr p req)). \<not> is_append_send e \<and> \<not> is_interval_event e"
  "hd (snd (sendSnapshotRequest s tr p req)) = SnapshotSent req"
  by (simp_all add: sendSnapshotRequest_def sendSnapshotRecovery_cases
      split: option.split prod.split)

lemma append_path_effects:
  "\<forall>e \<in> set (snd (sendAppendEntriesRequest oor s tr p req)). \<not> is_snapshot_send e"
  "hd (snd (sendAppendEntriesRequest oor s tr p req)) = AppendEntriesSent req"
  by (simp_all add: sendAppendEntriesRequest_def Let_def
      split: option.split prod.split)

lemma flush_failedHeartbeats:
  "failedHeartbeats (fst (flush oor s tr p)) =
     (case fst (getEntriesAfter s (prevLogIndex p) (maxLogEntriesPerRequest s)) of
        None \<Rightarrow> failedHeartbeats p
      | Some es \<Rightarrow>
          (case SendAppendEntriesRequest tr s p
                  (newAppendEntriesRequest (currentTerm s) (prevLogIndex p)
                     (snd (getEntriesAfter s (prevLogIndex p) (maxLogEntriesPerRequest s)))
                     (log_CommitIndex s) (name s) es) of
             None \<Rightarrow> float64_inc (failedHeartbeats p)
           | Some resp \<Rightarrow> 0))"
proof (cases "getEntriesAfter s (prevLogIndex p) (maxLogEntriesPerRequest s)")
  case (Pair entries plt)
  show ?thesis
  proof (cases entries)
    case None
    then show ?thesis
      using Pair by (simp add: flush_None snapshot_path_keeps)
  next
    case (Some es)
    then have g: "getEntriesAfter s (prevLogIndex p) (maxLogEntriesPerRequest s) = (Some es, plt)"
      using Pair by simp
    show ?thesis
      unfolding flush_Some [OF g] g
      by (simp add: sendAppend_Some sendAppend_None Let_def split: option.split)
  qed
qed

lemma float64_inc_pos: "float64_inc x \<noteq> 0"
  by (simp add: float64_inc_def)

lemma flushes_backoff:
  assumes "\<forall>(s, tr) \<in> set rounds.
             fst (getEntriesAfter s i (maxLogEntriesPerRequest s)) \<noteq> None \<and>
             (\<forall>q r. SendAppendEntriesRequest tr s q r = None)"
      and "prevLogIndex p = i"
      and "failedHeartbeats p + length rounds \<le> 62"
  shows "failedHeartbeats (flushes oor p rounds) = failedHeartbeats p + length rounds \<and>
         prevLogIndex (flushes oor p rounds) = i \<and>
         heartbeatInterval (flushes oor p rounds) = heartbeatInterval p \<and>
         (rounds \<noteq> [] \<longrightarrow>
            heartbeatTicker (flushes oor p rounds) =
              time_Tick (heartbeatInterval p * 2 ^ (failedHeartbeats p + length rounds)))"
  using assms
proof (induction rounds arbitrary: p)
  case Nil
  then show ?case by simp
next
  case (Cons r rounds)
  obtain s tr where r: "r = (s, tr)"
    by (cases r)
  from Cons.prems(1) r obtain es plt
    where g: "getEntriesAfter s (prevLogIndex p) (maxLogEntriesPerRequest s) = (Some es, plt)"
    using Cons.prems(2) by (cases "getEntriesAfter s i (maxLogEntriesPerRequest s)") auto
  have n: "SendAppendEntriesRequest tr s p
             (newAppendEntriesRequest (currentTerm s) (prevLogIndex p) plt (log_CommitIndex s)
                (name s) es) = None"
    using Cons.prems(1) r by simp
  have f: "fst (flush oor s tr p) = backoffHeartbeat oor p"
    by (simp add: flush_Some [OF g] sendAppend_None [OF n])
  have small: "failedHeartbeats p < 62"
    using Cons.prems(3) by simp
  then have inc: "float64_inc (failedHeartbeats p) = failedHeartbeats p + 1"
    by (simp add: float64_inc_def)
  have p2: "pow2_Duration oor (Suc (failedHeartbeats p)) = 2 * 2 ^ failedHeartbeats p"
    using small by (simp add: pow2_Duration_def)
  let ?p1 = "backoffHeartbeat oor p"
  have ih: "failedHeartbeats (flushes oor ?p1 rounds) = failedHeartbeats ?p1 + length rounds \<and>
         prevLogIndex (flushes oor ?p1 rounds) = i \<and>
         heartbeatInterval (flushes oor ?p1 rounds) = heartbeatInterval ?p1 \<and>
         (rounds \<noteq> [] \<longrightarrow>
            heartbeatTicker (flushes oor ?p1 rounds) =
              time_Tick (heartbeatInterval ?p1 * 2 ^ (failedHeartbeats ?p1 + length rounds)))"
  proof (rule Cons.IH)
    show "\<forall>(s, tr) \<in> set rounds.
             fst (getEntriesAfter s i (maxLogEntriesPerRequest s)) \<noteq> None \<and>
             (\<forall>q r. SendAppendEntriesRequest tr s q r = None)"
      using Cons.prems(1) by simp
    show "prevLogIndex ?p1 = i"
      using Cons.prems(2) by simp
    show "failedHeartbeats ?p1 + length rounds \<le> 62"
      using Cons.prems(3) inc by simp
  qed
  show ?case
  proof (cases "rounds = []")
    case True
    then show ?thesis
      using Cons.prems(2) by (simp add: r f inc p2)
  next
    case False
    then show ?thesis
      using ih by (simp add: r f inc)
  qed
qed

lemma flush_attempts_append:
  "flush_attempts (xs @ ys) = flush_attempts xs + flush_attempts ys"
  by (simp add: flush_attempts_def)

lemma heartbeat_loop_stop:
  assumes "\<forall>ev \<in> set ticks. \<exists>d. fst ev = Ticker d"
  shows "heartbeat_loop oor p (ticks @ (StopChan fl, s, tr) # rest) =
     (let (p1, effs1, st1) = heartbeat_loop oor p ticks
      in if fl then (fst (flush oor s tr p1), effs1 @ snd (flush oor s tr p1), Returned)
         else (p1, effs1, Returned))"
  using assms
proof (induction ticks arbitrary: p fl)
  case Nil
  then show ?case by (simp add: split_def Let_def)
next
  case (Cons ev ticks)
  obtain c s' tr' where ev: "ev = (c, s', tr')"
    by (cases ev)
  from Cons.prems obtain d where c: "c = Ticker d"
    using ev by auto
  have ih: "\<And>q b. heartbeat_loop oor q (ticks @ (StopChan b, s, tr) # rest) =
     (let (p1, effs1, st1) = heartbeat_loop oor q ticks
      in if b then (fst (flush oor s tr p1), effs1 @ snd (flush oor s tr p1), Returned)
         else (p1, effs1, Returned))"
    using Cons.IH Cons.prems by simp
  show ?case
    by (simp add: ev c ih split_def Let_def split: option.split)
qed

lemma ex_peer_fields [simp]:
  "Name ex_peer = ''b''"
  "prevLogIndex ex_peer = 10"
  "heartbeatInterval ex_peer = 50000000"
  "heartbeatTicker ex_peer = Some 50000000"
  "failedHeartbeats ex_peer = 0"
  by (simp_all add: ex_peer_def)

lemma ex_peer_behind_fields [simp]:
  "Name ex_peer_behind = ''b''"
  "prevLogIndex ex_peer_behind = 5"
  "heartbeatInterval ex_peer_behind = 50000000"
  "heartbeatTicker ex_peer_behind = Some 400000000"
  "failedHeartbeats ex_peer_behind = 3"
  by (simp_all add: ex_peer_behind_def)

lemma ex_server_fields [simp]:
  "name ex_server = ''a''"
  "currentTerm ex_server = 3"
  "server_Term ex_server = 3"
  "snapshot ex_server = \<lparr>snap_LastIndex = 8, snap_LastTerm = 2, snap_State = [1, 2, 3]\<rparr>"
  "maxLogEntriesPerRequest ex_server = 5"
  "getEntriesAfter ex_server 10 5 = (Some ex_entries, 2)"
  "getEntriesAfter ex_server 5 5 = (None, 0)"
  "log_CommitIndex ex_server = 11"
  by (simp_all add: ex_server_def server_Term_def)

lemma const_transport_fields [simp]:
  "SendAppendEntriesRequest (const_transport a b c d) s p ra = a"
  "SendSnapshotRequest (const_transport a b c d) s p rb = b"
  "SendSnapshotRecoveryRequest (const_transport a b c d) s p rc = c"
  "SendVoteRequest (const_transport a b c d) s p rd = d"
  by (simp_all add: const_transport_def)

lemma ex_append_response_fields [simp]:
  "resp_Success (ex_append_response ok t c i) = ok"
  "resp_Term (ex_append_response ok t c i) = t"
  "resp_CommitIndex (ex_append_response ok t c i) = c"
  "resp_Index (ex_append_response ok t c i) = i"
  by (simp_all add: ex_append_response_def)

lemma ex_request_fields [simp]:
  "newAppendEntriesRequest 3 10 2 11 ''a'' ex_entries = ex_request"
  "req_Term ex_request = 3"
  "req_Entries ex_request = ex_entries"
  by (simp_all add: ex_request_def newAppendEntriesRequest_def)

lemma ex_entries_facts [simp]:
  "length ex_entries = 2"
  "last ex_entries = \<lparr>GetIndex = 12, GetTerm = 3, Command = ''y''\<rparr>"
  by (simp_all add: ex_entries_def)

lemma ex_recovery_response_fields [simp]:
  "rresp_Success (ex_recovery_response ok) = ok"
  by (simp add: ex_recovery_response_def)

lemma ex_peer_backed_off_fields [simp]:
  "Name ex_peer_backed_off = ''b''"
  "prevLogIndex ex_peer_backed_off = 10"
  "heartbeatInterval ex_peer_backed_off = 50000000"
  "heartbeatTicker ex_peer_backed_off = Some 200000000"
  "failedHeartbeats ex_peer_backed_off = 2"
  by (simp_all add: ex_peer_backed_off_def)

lemma ex_vote_fields [simp]:
  "ex_vote_request\<lparr>vreq_peer := Some ''b''\<rparr> =
     \<lparr>vreq_peer = Some ''b'', vreq_Term = 4, vreq_LastLogIndex = 12, vreq_LastLogTerm = 3,
      vreq_CandidateName = ''a''\<rparr>"
  "ex_vote_response\<lparr>vresp_peer := Some ''b''\<rparr> =
     \<lparr>vresp_peer = Some ''b'', vresp_Term = 4, vresp_VoteGranted = True\<rparr>"
  by (simp_all add: ex_vote_request_def ex_vote_response_def)

subsection \<open>Append entries: success\<close>

text \<open>
  Claim C1. When an append-entries exchange gets a response that reports success, and the
  request carried at least one entry, the peer's \<open>prevLogIndex\<close> becomes the index of the last
  entry sent. If moreover the term of that last entry is the leader's current term, the
  response handed to \<^verbatim>\<open>sendAsync\<close> is the follower's response with its \<open>append\<close> marker set
  (and the peer's name attached).
\<close>

theorem append_success_advances_prevLogIndex:
  assumes "SendAppendEntriesRequest tr s p req = Some resp"
      and "resp_Success resp"
      and "length (req_Entries req) > 0"
  shows "prevLogIndex (fst (sendAppendEntriesRequest oor s tr p req)) =
           GetIndex (last (req_Entries req)) \<and>
         (GetTerm (last (req_Entries req)) = currentTerm s \<longrightarrow>
            snd (sendAppendEntriesRequest oor s tr p req) =
              [AppendEntriesSent req,
               SendAsync (AppendResp (resp\<lparr>resp_append := True, resp_peer := Name p\<rparr>))])"
  using assms
  by (simp add: sendAppend_Some reconcile_def Let_def last_conv_nth)

theorem append_success_advances_prevLogIndex_witness:
  "SendAppendEntriesRequest
     (const_transport (Some (ex_append_response True 3 11 12)) None None None)
     ex_server ex_peer ex_request = Some (ex_append_response True 3 11 12) \<and>
   resp_Success (ex_append_response True 3 11 12) \<and>
   length (req_Entries ex_request) > 0 \<and>
   prevLogIndex (fst (sendAppendEntriesRequest ex_oor ex_server
     (const_transport (Some (ex_append_response True 3 11 12)) None None None)
     ex_peer ex_request)) = 12 \<and>
   snd (sendAppendEntriesRequest ex_oor ex_server
     (const_transport (Some (ex_append_response True 3 11 12)) None None None)
     ex_peer ex_request) =
     [AppendEntriesSent ex_request,
      SendAsync (AppendResp
        (ex_append_response True 3 11 12\<lparr>resp_append := True, resp_peer := ''b''\<rparr>))]"
proof -
  let ?r = "ex_append_response True 3 11 12"
  let ?tr = "const_transport (Some ?r) None None None"
  have h1: "SendAppendEntriesRequest ?tr ex_server ex_peer ex_request = Some ?r"
    by simp
  have h2: "resp_Success ?r"
    by simp
  have h3: "length (req_Entries ex_request) > 0"
    by simp
  show ?thesis
    using append_success_advances_prevLogIndex [OF h1 h2 h3, of ex_oor] by simp
qed

subsection \<open>Append entries: conflict\<close>

text \<open>
  Claim C2. When an append-entries exchange gets a response that reports failure, whose
  term is not greater than the local term and whose commit index is below the peer's
  \<open>prevLogIndex\<close>, then \<open>prevLogIndex\<close> is greater than 0, it is decremented by one, and it is
  then lowered to the response's conflict index when that index is smaller than the
  decremented value. Read as integers, the new value is the minimum of the old value minus
  one and the conflict index: the subtraction does not wrap around below zero.
\<close>

theorem append_failure_decrements_prevLogIndex:
  assumes "SendAppendEntriesRequest tr s p req = Some resp"
      and "\<not> resp_Success resp"
      and "resp_Term resp \<le> server_Term s"
      and "resp_CommitIndex resp < prevLogIndex p"
  shows "0 < prevLogIndex p \<and>
         prevLogIndex (fst (sendAppendEntriesRequest oor s tr p req)) =
           (if resp_Index resp < prevLogIndex p - 1 then resp_Index resp
            else prevLogIndex p - 1) \<and>
         uint (prevLogIndex (fst (sendAppendEntriesRequest oor s tr p req))) =
           min (uint (prevLogIndex p) - 1) (uint (resp_Index resp)) \<and>
         0 \<le> uint (prevLogIndex p) - 1"
proof -
  have pos: "0 < prevLogIndex p"
    using assms(4) by (rule word_lt_pos)
  have dec: "uint (prevLogIndex p - 1) = uint (prevLogIndex p) - 1"
    using pos by (rule uint_dec)
  have nt: "\<not> resp_Term resp > server_Term s"
    using assms(3) by simp
  have nc: "\<not> resp_CommitIndex resp \<ge> prevLogIndex p"
    using assms(4) by simp
  have eq: "prevLogIndex (fst (sendAppendEntriesRequest oor s tr p req)) =
           (if resp_Index resp < prevLogIndex p - 1 then resp_Index resp
            else prevLogIndex p - 1)"
    using sendAppend_prevLogIndex_failure [OF assms(1,2)] nt nc pos by simp
  have "uint (prevLogIndex (fst (sendAppendEntriesRequest oor s tr p req))) =
           min (uint (prevLogIndex p) - 1) (uint (resp_Index resp))"
    unfolding eq using dec by (simp add: word_less_def min_def)
  moreover have "0 \<le> uint (prevLogIndex p) - 1"
    using dec [symmetric] by simp
  ultimately show ?thesis using pos eq by simp
qed

theorem append_failure_decrements_prevLogIndex_witness:
  "SendAppendEntriesRequest
     (const_transport (Some (ex_append_response False 3 4 3)) None None None)
     ex_server ex_peer ex_request = Some (ex_append_response False 3 4 3) \<and>
   \<not> resp_Success (ex_append_response False 3 4 3) \<and>
   resp_Term (ex_append_response False 3 4 3) \<le> server_Term ex_server \<and>
   resp_CommitIndex (ex_append_response False 3 4 3) < prevLogIndex ex_peer \<and>
   prevLogIndex (fst (sendAppendEntriesRequest ex_oor ex_server
     (const_transport (Some (ex_append_response False 3 4 3)) None None None)
     ex_peer ex_request)) = 3"
proof -
  let ?r = "ex_append_response False 3 4 3"
  let ?tr = "const_transport (Some ?r) None None None"
  have h1: "SendAppendEntriesRequest ?tr ex_server ex_peer ex_request = Some ?r"
    by simp
  have h2: "\<not> resp_Success ?r"
    by simp
  have h3: "resp_Term ?r \<le> server_Term ex_server"
    by simp
  have h4: "resp_CommitIndex ?r < prevLogIndex ex_peer"
    by simp
  show ?thesis
    using append_failure_decrements_prevLogIndex [OF h1 h2 h3 h4, of ex_oor] by simp
qed

subsection \<open>Append entries: lost acknowledgement, newer leader\<close>



subsection \<open>Flush: append entries or snapshot\<close>

text \<open>
  Claim C4. When the log has no entries to return after the peer's \<open>prevLogIndex\<close> (a \<^verbatim>\<open>nil\<close>
  result), \<open>flush\<close> is the snapshot transfer: its first transport call is the snapshot offer
  and it sends no append-entries request. When the log returns entries, an empty batch
  included, \<open>flush\<close> is the append-entries exchange for the request made of the current
  term, the peer's \<open>prevLogIndex\<close>, the term the log returned with the entries, the leader's
  commit index, the leader's name and the entries; its first transport call is that request,
  and it sends no snapshot offer.
\<close>

theorem flush_chooses_append_or_snapshot:
  "(getEntriesAfter s (prevLogIndex p) (maxLogEntriesPerRequest s) = (None, plt) \<longrightarrow>
      flush oor s tr p = sendSnapshotRequest s tr p (newSnapshotRequest (name s) (snapshot s)) \<and>
      hd (snd (flush oor s tr p)) = SnapshotSent (newSnapshotRequest (name s) (snapshot s)) \<and>
      (\<forall>e \<in> set (snd (flush oor s tr p)). \<not> is_append_send e)) \<and>
   (getEntriesAfter s (prevLogIndex p) (maxLogEntriesPerRequest s) = (Some es, plt) \<longrightarrow>
      flush oor s tr p =
        sendAppendEntriesRequest oor s tr p
          \<lparr>req_Term = currentTerm s, req_PrevLogIndex = prevLogIndex p, req_PrevLogTerm = plt,
           req_CommitIndex = log_CommitIndex s, req_LeaderName = name s, req_Entries = es\<rparr> \<and>
      hd (snd (flush oor s tr p)) =
        AppendEntriesSent
          \<lparr>req_Term = currentTerm s, req_PrevLogIndex = prevLogIndex p, req_PrevLogTerm = plt,
           req_CommitIndex = log_CommitIndex s, req_LeaderName = name s, req_Entries = es\<rparr> \<and>
      (\<forall>e \<in> set (snd (flush oor s tr p)). \<not> is_snapshot_send e))"
proof (intro conjI impI)
  assume n: "getEntriesAfter s (prevLogIndex p) (maxLogEntriesPerRequest s) = (None, plt)"
  show "flush oor s tr p = sendSnapshotRequest s tr p (newSnapshotRequest (name s) (snapshot s))"
    by (rule flush_None [OF n])
  show "hd (snd (flush oor s tr p)) = SnapshotSent (newSnapshotRequest (name s) (snapshot s))"
    by (simp add: flush_None [OF n] snapshot_path_effects)
  show "\<forall>e \<in> set (snd (flush oor s tr p)). \<not> is_append_send e"
    using snapshot_path_effects(1) by (simp add: flush_None [OF n])
next
  assume e: "getEntriesAfter s (prevLogIndex p) (maxLogEntriesPerRequest s) = (Some es, plt)"
  show "flush oor s tr p =
        sendAppendEntriesRequest oor s tr p
          \<lparr>req_Term = currentTerm s, req_PrevLogIndex = prevLogIndex p, req_PrevLogTerm = plt,
           req_CommitIndex = log_CommitIndex s, req_LeaderName = name s, req_Entries = es\<rparr>"
    using flush_Some [OF e] by (simp add: newAppendEntriesRequest_def)
  then show "hd (snd (flush oor s tr p)) =
        AppendEntriesSent
          \<lparr>req_Term = currentTerm s, req_PrevLogIndex = prevLogIndex p, req_PrevLogTerm = plt,
           req_CommitIndex = log_CommitIndex s, req_LeaderName = name s, req_Entries = es\<rparr>"
    by (simp add: append_path_effects)
  show "\<forall>e \<in> set (snd (flush oor s tr p)). \<not> is_snapshot_send e"
    using append_path_effects(1) by (simp add: flush_Some [OF e])
qed

theorem flush_chooses_append_or_snapshot_witness:
  "getEntriesAfter ex_server (prevLogIndex ex_peer_behind) (maxLogEntriesPerRequest ex_server) =
     (None, 0) \<and>
   hd (snd (flush ex_oor ex_server (const_transport None None None None) ex_peer_behind)) =
     SnapshotSent \<lparr>sreq_LeaderName = ''a'', sreq_LastIndex = 8, sreq_LastTerm = 2\<rparr> \<and>
   list_all (\<lambda>e. \<not> is_append_send e)
     (snd (flush ex_oor ex_server (const_transport None None None None) ex_peer_behind)) \<and>
   getEntriesAfter ex_server (prevLogIndex ex_peer) (maxLogEntriesPerRequest ex_server) =
     (Some ex_entries, 2) \<and>
   hd (snd (flush ex_oor ex_server (const_transport None None None None) ex_peer)) =
     AppendEntriesSent
       \<lparr>req_Term = 3, req_PrevLogIndex = 10, req_PrevLogTerm = 2, req_CommitIndex = 11,
        req_LeaderName = ''a'', req_Entries = ex_entries\<rparr> \<and>
   list_all (\<lambda>e. \<not> is_snapshot_send e)
     (snd (flush ex_oor ex_server (const_transport None None None None) ex_peer))"
proof -
  let ?tr = "const_transport None None None None"
  have g1: "getEntriesAfter ex_server (prevLogIndex ex_peer_behind)
              (maxLogEntriesPerRequest ex_server) = (None, 0)"
    by simp
  have g2: "getEntriesAfter ex_server (prevLogIndex ex_peer) (maxLogEntriesPerRequest ex_server) =
     (Some ex_entries, 2)"
    by simp
  have c1: "hd (snd (flush ex_oor ex_server ?tr ex_peer_behind)) =
              SnapshotSent (newSnapshotRequest (name ex_server) (snapshot ex_server)) \<and>
            (\<forall>e \<in> set (snd (flush ex_oor ex_server ?tr ex_peer_behind)). \<not> is_append_send e)"
    using flush_chooses_append_or_snapshot [of ex_server ex_peer_behind 0 ex_oor ?tr ex_entries] g1 by blast
  have c2: "hd (snd (flush ex_oor ex_server ?tr ex_peer)) =
              AppendEntriesSent
                \<lparr>req_Term = currentTerm ex_server, req_PrevLogIndex = prevLogIndex ex_peer,
                 req_PrevLogTerm = 2, req_CommitIndex = log_CommitIndex ex_server,
                 req_LeaderName = name ex_server, req_Entries = ex_entries\<rparr> \<and>
            (\<forall>e \<in> set (snd (flush ex_oor ex_server ?tr ex_peer)). \<not> is_snapshot_send e)"
    using flush_chooses_append_or_snapshot [of ex_server ex_peer 2 ex_oor ?tr ex_entries] g2 by blast
  show ?thesis
    using g1 g2 c1 c2 by (simp add: newSnapshotRequest_def list_all_iff)
qed

subsection \<open>Snapshot recovery\<close>

text \<open>
  Claim C5. In the second phase of the snapshot transfer: when the recovery response arrives
  and reports success, the peer's \<open>prevLogIndex\<close> becomes the snapshot's last included index
  and the response is handed to \<^verbatim>\<open>sendAsync\<close>; when it arrives and reports rejection, or
  when none arrives, the peer is unchanged and nothing is handed to \<^verbatim>\<open>sendAsync\<close>. The second
  phase is what the first phase runs once the offer is accepted.
\<close>

theorem snapshot_recovery_outcome:
  "(SendSnapshotRecoveryRequest tr s p (newSnapshotRecoveryRequest (name s) (snapshot s)) = Some resp
      \<and> rresp_Success resp \<longrightarrow>
      sendSnapshotRecoveryRequest s tr p =
        (p\<lparr>prevLogIndex := snap_LastIndex (snapshot s)\<rparr>,
         [SnapshotRecoverySent (newSnapshotRecoveryRequest (name s) (snapshot s)),
          SendAsync (RecoveryResp resp)])) \<and>
   (SendSnapshotRecoveryRequest tr s p (newSnapshotRecoveryRequest (name s) (snapshot s)) = Some resp
      \<and> \<not> rresp_Success resp \<longrightarrow>
      sendSnapshotRecoveryRequest s tr p =
        (p, [SnapshotRecoverySent (newSnapshotRecoveryRequest (name s) (snapshot s))])) \<and>
   (SendSnapshotRecoveryRequest tr s p (newSnapshotRecoveryRequest (name s) (snapshot s)) = None
      \<longrightarrow>
      sendSnapshotRecoveryRequest s tr p =
        (p, [SnapshotRecoverySent (newSnapshotRecoveryRequest (name s) (snapshot s))])) \<and>
   (SendSnapshotRequest tr s p sreq = Some offer \<and> sresp_Success offer \<longrightarrow>
      sendSnapshotRequest s tr p sreq =
        (fst (sendSnapshotRecoveryRequest s tr p),
         SnapshotSent sreq # snd (sendSnapshotRecoveryRequest s tr p)))"
  by (simp add: sendSnapshotRecovery_cases sendSnapshotRequest_def split: prod.split)

theorem snapshot_recovery_outcome_witness:
  "SendSnapshotRecoveryRequest
     (const_transport None (Some \<lparr>sresp_Success = True\<rparr>) (Some (ex_recovery_response True)) None)
     ex_server ex_peer_behind (newSnapshotRecoveryRequest (name ex_server) (snapshot ex_server)) =
     Some (ex_recovery_response True) \<and>
   rresp_Success (ex_recovery_response True) \<and>
   prevLogIndex (fst (sendSnapshotRecoveryRequest ex_server
     (const_transport None (Some \<lparr>sresp_Success = True\<rparr>) (Some (ex_recovery_response True)) None)
     ex_peer_behind)) = 8 \<and>
   snd (sendSnapshotRecoveryRequest ex_server
     (const_transport None (Some \<lparr>sresp_Success = True\<rparr>) (Some (ex_recovery_response True)) None)
     ex_peer_behind) =
     [SnapshotRecoverySent (newSnapshotRecoveryRequest (name ex_server) (snapshot ex_server)),
      SendAsync (RecoveryResp (ex_recovery_response True))] \<and>
   \<not> rresp_Success (ex_recovery_response False) \<and>
   sendSnapshotRecoveryRequest ex_server
     (const_transport None (Some \<lparr>sresp_Success = True\<rparr>) (Some (ex_recovery_response False)) None)
     ex_peer_behind =
     (ex_peer_behind,
      [SnapshotRecoverySent (newSnapshotRecoveryRequest (name ex_server) (snapshot ex_server))]) \<and>
   sendSnapshotRecoveryRequest ex_server
     (const_transport None (Some \<lparr>sresp_Success = True\<rparr>) None None) ex_peer_behind =
     (ex_peer_behind,
      [SnapshotRecoverySent (newSnapshotRecoveryRequest (name ex_server) (snapshot ex_server))]) \<and>
   sendSnapshotRequest ex_server
     (const_transport None (Some \<lparr>sresp_Success = True\<rparr>) None None) ex_peer_behind
     (newSnapshotRequest (name ex_server) (snapshot ex_server)) =
     (ex_peer_behind,
      [SnapshotSent (newSnapshotRequest (name ex_server) (snapshot ex_server)),
       SnapshotRecoverySent (newSnapshotRecoveryRequest (name ex_server) (snapshot ex_server))])"
proof -
  let ?offer = "\<lparr>sresp_Success = True\<rparr>"
  let ?a = "const_transport None (Some ?offer) (Some (ex_recovery_response True)) None"
  let ?b = "const_transport None (Some ?offer) (Some (ex_recovery_response False)) None"
  let ?c = "const_transport None (Some ?offer) None None"
  let ?sreq = "newSnapshotRequest (name ex_server) (snapshot ex_server)"
  note a = snapshot_recovery_outcome [where tr = ?a and s = ex_server and p = ex_peer_behind
      and resp = "ex_recovery_response True" and sreq = ?sreq and offer = ?offer]
  note b = snapshot_recovery_outcome [where tr = ?b and s = ex_server and p = ex_peer_behind
      and resp = "ex_recovery_response False" and sreq = ?sreq and offer = ?offer]
  note c = snapshot_recovery_outcome [where tr = ?c and s = ex_server and p = ex_peer_behind
      and resp = "ex_recovery_response True" and sreq = ?sreq and offer = ?offer]
  have a': "sendSnapshotRecoveryRequest ex_server ?a ex_peer_behind =
        (ex_peer_behind\<lparr>prevLogIndex := snap_LastIndex (snapshot ex_server)\<rparr>,
         [SnapshotRecoverySent (newSnapshotRecoveryRequest (name ex_server) (snapshot ex_server)),
          SendAsync (RecoveryResp (ex_recovery_response True))])"
    using a by simp
  have b': "sendSnapshotRecoveryRequest ex_server ?b ex_peer_behind =
        (ex_peer_behind,
         [SnapshotRecoverySent (newSnapshotRecoveryRequest (name ex_server) (snapshot ex_server))])"
    using b by simp
  have c': "sendSnapshotRecoveryRequest ex_server ?c ex_peer_behind =
        (ex_peer_behind,
         [SnapshotRecoverySent (newSnapshotRecoveryRequest (name ex_server) (snapshot ex_server))])"
    using c by simp
  have c'': "sendSnapshotRequest ex_server ?c ex_peer_behind ?sreq =
        (fst (sendSnapshotRecoveryRequest ex_server ?c ex_peer_behind),
         SnapshotSent ?sreq # snd (sendSnapshotRecoveryRequest ex_server ?c ex_peer_behind))"
    using c by simp
  show ?thesis
    unfolding c'' unfolding a' b' c' by simp
qed

subsection \<open>Resetting the failure counter\<close>

text \<open>
  Claim C6 says that \<open>failedHeartbeats\<close> is reset to 0 whenever any response is received
  from the peer. It is not on the snapshot path: for the follower that has fallen behind
  the snapshot, with three failed heartbeats counted, a flush in which the follower answers
  and accepts both the snapshot offer and the snapshot itself leaves the counter at 3.
\<close>

theorem snapshot_response_keeps_failedHeartbeats:
  "SendSnapshotRequest
     (const_transport None (Some \<lparr>sresp_Success = True\<rparr>) (Some (ex_recovery_response True)) None)
     ex_server ex_peer_behind (newSnapshotRequest (name ex_server) (snapshot ex_server)) =
     Some \<lparr>sresp_Success = True\<rparr> \<and>
   SendSnapshotRecoveryRequest
     (const_transport None (Some \<lparr>sresp_Success = True\<rparr>) (Some (ex_recovery_response True)) None)
     ex_server ex_peer_behind (newSnapshotRecoveryRequest (name ex_server) (snapshot ex_server)) =
     Some (ex_recovery_response True) \<and>
   failedHeartbeats ex_peer_behind = 3 \<and>
   failedHeartbeats (fst (flush ex_oor ex_server
     (const_transport None (Some \<lparr>sresp_Success = True\<rparr>) (Some (ex_recovery_response True)) None)
     ex_peer_behind)) = 3 \<and>
   failedHeartbeats (fst (flush ex_oor ex_server
     (const_transport None (Some \<lparr>sresp_Success = True\<rparr>) (Some (ex_recovery_response True)) None)
     ex_peer_behind)) \<noteq> 0"
  by (simp add: flush_failedHeartbeats)

text \<open>
  Claim C6, amended. Over one flush, \<open>failedHeartbeats\<close> is 0 afterwards whenever the flush
  sent an append-entries request and got a response, whatever the response reports; when
  the append-entries request got no response the counter is incremented, and so is not 0;
  and when the flush took the snapshot path the counter is left as it was, whether or not
  the follower answered.
\<close>

theorem failedHeartbeats_reset_on_append_response_only:
  "(getEntriesAfter s (prevLogIndex p) (maxLogEntriesPerRequest s) = (Some es, plt) \<and>
    SendAppendEntriesRequest tr s p
      (newAppendEntriesRequest (currentTerm s) (prevLogIndex p) plt (log_CommitIndex s)
         (name s) es) = Some resp \<longrightarrow>
      failedHeartbeats (fst (flush oor s tr p)) = 0) \<and>
   (getEntriesAfter s (prevLogIndex p) (maxLogEntriesPerRequest s) = (Some es, plt) \<and>
    SendAppendEntriesRequest tr s p
      (newAppendEntriesRequest (currentTerm s) (prevLogIndex p) plt (log_CommitIndex s)
         (name s) es) = None \<longrightarrow>
      failedHeartbeats (fst (flush oor s tr p)) = float64_inc (failedHeartbeats p) \<and>
      failedHeartbeats (fst (flush oor s tr p)) \<noteq> 0) \<and>
   (getEntriesAfter s (prevLogIndex p) (maxLogEntriesPerRequest s) = (None, plt) \<longrightarrow>
      failedHeartbeats (fst (flush oor s tr p)) = failedHeartbeats p)"
  by (simp add: flush_failedHeartbeats float64_inc_pos)

theorem failedHeartbeats_reset_on_append_response_only_witness:
  "getEntriesAfter ex_server (prevLogIndex ex_peer_backed_off) (maxLogEntriesPerRequest ex_server) =
     (Some ex_entries, 2) \<and>
   SendAppendEntriesRequest
     (const_transport (Some (ex_append_response False 3 4 3)) None None None)
     ex_server ex_peer_backed_off ex_request = Some (ex_append_response False 3 4 3) \<and>
   failedHeartbeats (fst (flush ex_oor ex_server
     (const_transport (Some (ex_append_response False 3 4 3)) None None None)
     ex_peer_backed_off)) = 0 \<and>
   SendAppendEntriesRequest (const_transport None None None None)
     ex_server ex_peer_backed_off ex_request = None \<and>
   failedHeartbeats (fst (flush ex_oor ex_server (const_transport None None None None)
     ex_peer_backed_off)) = 3 \<and>
   getEntriesAfter ex_server (prevLogIndex ex_peer_behind) (maxLogEntriesPerRequest ex_server) =
     (None, 0) \<and>
   failedHeartbeats (fst (flush ex_oor ex_server
     (const_transport None (Some \<lparr>sresp_Success = False\<rparr>) None None) ex_peer_behind)) = 3"
proof -
  let ?r = "ex_append_response False 3 4 3"
  let ?a = "const_transport (Some ?r) None None None"
  let ?b = "const_transport None None None None"
  let ?c = "const_transport None (Some \<lparr>sresp_Success = False\<rparr>) None None"
  have g: "getEntriesAfter ex_server (prevLogIndex ex_peer_backed_off)
             (maxLogEntriesPerRequest ex_server) = (Some ex_entries, 2)"
    by simp
  have g': "getEntriesAfter ex_server (prevLogIndex ex_peer_behind)
             (maxLogEntriesPerRequest ex_server) = (None, 0)"
    by simp
  have a: "SendAppendEntriesRequest ?a ex_server ex_peer_backed_off
             (newAppendEntriesRequest (currentTerm ex_server) (prevLogIndex ex_peer_backed_off) 2
                (log_CommitIndex ex_server) (name ex_server) ex_entries) = Some ?r"
    by simp
  have b: "SendAppendEntriesRequest ?b ex_server ex_peer_backed_off
             (newAppendEntriesRequest (currentTerm ex_server) (prevLogIndex ex_peer_backed_off) 2
                (log_CommitIndex ex_server) (name ex_server) ex_entries) = None"
    by simp
  have 1: "failedHeartbeats (fst (flush ex_oor ex_server ?a ex_peer_backed_off)) = 0"
    using failedHeartbeats_reset_on_append_response_only [where s = ex_server and p = ex_peer_backed_off and es = ex_entries
        and plt = 2 and tr = ?a and resp = ?r and oor = ex_oor] g a by blast
  have 2: "failedHeartbeats (fst (flush ex_oor ex_server ?b ex_peer_backed_off)) =
           float64_inc (failedHeartbeats ex_peer_backed_off)"
    using failedHeartbeats_reset_on_append_response_only [where s = ex_server and p = ex_peer_backed_off and es = ex_entries
        and plt = 2 and tr = ?b and resp = ?r and oor = ex_oor] g b by blast
  have 3: "failedHeartbeats (fst (flush ex_oor ex_server ?c ex_peer_behind)) =
           failedHeartbeats ex_peer_behind"
    using failedHeartbeats_reset_on_append_response_only [where s = ex_server and p = ex_peer_behind and es = ex_entries
        and plt = 0 and tr = ?c and resp = ?r and oor = ex_oor] g' by blast
  show ?thesis
    unfolding 1 2 3 by (simp add: float64_inc_def)
qed

subsection \<open>Back-off\<close>

text \<open>
  Claim C7 says that every flush whose transport call returns no response increments
  \<open>failedHeartbeats\<close> and recomputes the timer period. It does not when the flush takes the
  snapshot path: for the follower that has fallen behind the snapshot, a flush whose
  snapshot offer gets no response leaves the counter at 3 and the ticker at eight times the
  base interval.
\<close>

theorem silent_snapshot_flush_keeps_counter:
  "getEntriesAfter ex_server (prevLogIndex ex_peer_behind) (maxLogEntriesPerRequest ex_server) =
     (None, 0) \<and>
   SendSnapshotRequest (const_transport None None None None) ex_server ex_peer_behind
     (newSnapshotRequest (name ex_server) (snapshot ex_server)) = None \<and>
   failedHeartbeats ex_peer_behind = 3 \<and>
   failedHeartbeats (fst (flush ex_oor ex_server (const_transport None None None None)
     ex_peer_behind)) = 3 \<and>
   failedHeartbeats (fst (flush ex_oor ex_server (const_transport None None None None)
     ex_peer_behind)) \<noteq> failedHeartbeats ex_peer_behind + 1 \<and>
   heartbeatTicker (fst (flush ex_oor ex_server (const_transport None None None None)
     ex_peer_behind)) = Some (50000000 * 2 ^ 3) \<and>
   heartbeatTicker (fst (flush ex_oor ex_server (const_transport None None None None)
     ex_peer_behind)) \<noteq> time_Tick (heartbeatInterval ex_peer_behind * 2 ^ 4)"
  by (simp add: flush_failedHeartbeats flush_None [of ex_server ex_peer_behind 0]
      snapshot_path_keeps time_Tick_def)

text \<open>
  Claim C7, amended. For a flush that sends an append-entries request and gets no response,
  \<open>failedHeartbeats\<close> is incremented (by one as long as the \<^verbatim>\<open>float64\<close> counter is below
  \<open>2^53\<close>), the ticker is restarted with the period \<open>heartbeatInterval * 2^failedHeartbeats\<close>
  computed on \<^verbatim>\<open>int64\<close> for the new counter value, and \<open>prevLogIndex\<close> is not modified. So
  after \<open>k\<close> consecutive such flushes from a counter of 0, with \<open>1 \<le> k \<le> 62\<close>, the counter is
  \<open>k\<close> and the period is \<open>heartbeatInterval * 2^k\<close> on \<^verbatim>\<open>int64\<close>, which is the integer
  \<open>heartbeatInterval \<times> 2^k\<close> when the base interval is positive and the product is below
  \<open>2^63\<close>. A single append-entries response, whatever it reports, puts the counter back to
  0 and, if the counter was not 0, the ticker back to the base interval.
\<close>

theorem backoff_on_append_failure:
  "(getEntriesAfter s (prevLogIndex p) (maxLogEntriesPerRequest s) = (Some es, plt) \<and>
    SendAppendEntriesRequest tr s p
      (newAppendEntriesRequest (currentTerm s) (prevLogIndex p) plt (log_CommitIndex s)
         (name s) es) = None \<longrightarrow>
      failedHeartbeats (fst (flush oor s tr p)) = float64_inc (failedHeartbeats p) \<and>
      heartbeatTicker (fst (flush oor s tr p)) =
        time_Tick (heartbeatInterval p *
                   pow2_Duration oor (failedHeartbeats (fst (flush oor s tr p)))) \<and>
      prevLogIndex (fst (flush oor s tr p)) = prevLogIndex p \<and>
      (failedHeartbeats p < 2 ^ 53 \<longrightarrow>
         failedHeartbeats (fst (flush oor s tr p)) = failedHeartbeats p + 1) \<and>
      (failedHeartbeats p < 62 \<longrightarrow>
         heartbeatTicker (fst (flush oor s tr p)) =
           time_Tick (heartbeatInterval p * 2 ^ (failedHeartbeats p + 1)))) \<and>
   ((\<forall>(s', tr') \<in> set rounds.
        fst (getEntriesAfter s' (prevLogIndex p) (maxLogEntriesPerRequest s')) \<noteq> None \<and>
        (\<forall>q r. SendAppendEntriesRequest tr' s' q r = None)) \<and>
    failedHeartbeats p = 0 \<and> rounds \<noteq> [] \<and> length rounds \<le> 62 \<longrightarrow>
      failedHeartbeats (flushes oor p rounds) = length rounds \<and>
      heartbeatTicker (flushes oor p rounds) =
        time_Tick (heartbeatInterval p * 2 ^ length rounds) \<and>
      prevLogIndex (flushes oor p rounds) = prevLogIndex p \<and>
      (0 < sint (heartbeatInterval p) \<and> sint (heartbeatInterval p) * 2 ^ length rounds < 2 ^ 63
         \<longrightarrow> (\<exists>d. heartbeatTicker (flushes oor p rounds) = Some d \<and>
                   sint d = sint (heartbeatInterval p) * 2 ^ length rounds))) \<and>
   (getEntriesAfter s (prevLogIndex p) (maxLogEntriesPerRequest s) = (Some es, plt) \<and>
    SendAppendEntriesRequest tr s p
      (newAppendEntriesRequest (currentTerm s) (prevLogIndex p) plt (log_CommitIndex s)
         (name s) es) = Some resp \<longrightarrow>
      failedHeartbeats (fst (flush oor s tr p)) = 0 \<and>
      (failedHeartbeats p \<noteq> 0 \<longrightarrow>
         heartbeatTicker (fst (flush oor s tr p)) = time_Tick (heartbeatInterval p)))"
proof (intro conjI impI; (elim conjE)?)
  assume g: "getEntriesAfter s (prevLogIndex p) (maxLogEntriesPerRequest s) = (Some es, plt)"
    and n: "SendAppendEntriesRequest tr s p
      (newAppendEntriesRequest (currentTerm s) (prevLogIndex p) plt (log_CommitIndex s)
         (name s) es) = None"
  have f: "fst (flush oor s tr p) = backoffHeartbeat oor p"
    by (simp add: flush_Some [OF g] sendAppend_None [OF n])
  show "failedHeartbeats (fst (flush oor s tr p)) = float64_inc (failedHeartbeats p)"
    by (simp add: f)
  show "heartbeatTicker (fst (flush oor s tr p)) =
        time_Tick (heartbeatInterval p *
                   pow2_Duration oor (failedHeartbeats (fst (flush oor s tr p))))"
    by (simp add: f)
  show "prevLogIndex (fst (flush oor s tr p)) = prevLogIndex p"
    by (simp add: f)
  show "failedHeartbeats (fst (flush oor s tr p)) = failedHeartbeats p + 1"
    if "failedHeartbeats p < 2 ^ 53"
    using that by (simp add: f float64_inc_def)
  show "heartbeatTicker (fst (flush oor s tr p)) =
           time_Tick (heartbeatInterval p * 2 ^ (failedHeartbeats p + 1))"
    if "failedHeartbeats p < 62"
    using that by (simp add: f float64_inc_def pow2_Duration_def)
next
  assume r: "\<forall>(s', tr') \<in> set rounds.
        fst (getEntriesAfter s' (prevLogIndex p) (maxLogEntriesPerRequest s')) \<noteq> None \<and>
        (\<forall>q r. SendAppendEntriesRequest tr' s' q r = None)"
    and z: "failedHeartbeats p = 0" and ne: "rounds \<noteq> []" and le: "length rounds \<le> 62"
  have le': "failedHeartbeats p + length rounds \<le> 62"
    using z le by simp
  note b = flushes_backoff [OF r refl le', of oor]
  show "failedHeartbeats (flushes oor p rounds) = length rounds"
    using b z by simp
  show t: "heartbeatTicker (flushes oor p rounds) =
        time_Tick (heartbeatInterval p * 2 ^ length rounds)"
    using b z ne by simp
  show "prevLogIndex (flushes oor p rounds) = prevLogIndex p"
    using b by simp
  show "\<exists>d. heartbeatTicker (flushes oor p rounds) = Some d \<and>
                   sint d = sint (heartbeatInterval p) * 2 ^ length rounds"
    if "0 < sint (heartbeatInterval p)"
      and "sint (heartbeatInterval p) * 2 ^ length rounds < 2 ^ 63"
  proof -
    have m: "sint (heartbeatInterval p * 2 ^ length rounds) =
             sint (heartbeatInterval p) * 2 ^ length rounds"
      using that by (intro sint_mult_pow2) simp_all
    have "0 < sint (heartbeatInterval p) * 2 ^ length rounds"
      using that by simp
    then have "time_Tick (heartbeatInterval p * 2 ^ length rounds) =
               Some (heartbeatInterval p * 2 ^ length rounds)"
      using m by (simp add: time_Tick_def)
    then show ?thesis
      using t m by simp
  qed
next
  assume g: "getEntriesAfter s (prevLogIndex p) (maxLogEntriesPerRequest s) = (Some es, plt)"
    and n: "SendAppendEntriesRequest tr s p
      (newAppendEntriesRequest (currentTerm s) (prevLogIndex p) plt (log_CommitIndex s)
         (name s) es) = Some resp"
  show "failedHeartbeats (fst (flush oor s tr p)) = 0"
    by (simp add: flush_Some [OF g] sendAppend_Some [OF n] Let_def)
  show "heartbeatTicker (fst (flush oor s tr p)) = time_Tick (heartbeatInterval p)"
    if "failedHeartbeats p \<noteq> 0"
    using that
    by (simp add: flush_Some [OF g] sendAppend_Some [OF n] Let_def resetHeartbeatInterval_def)
qed

theorem backoff_on_append_failure_witness:
  "getEntriesAfter ex_server (prevLogIndex ex_peer) (maxLogEntriesPerRequest ex_server) =
     (Some ex_entries, 2) \<and>
   SendAppendEntriesRequest (const_transport None None None None) ex_server ex_peer ex_request =
     None \<and>
   failedHeartbeats (fst (flush ex_oor ex_server (const_transport None None None None) ex_peer)) =
     1 \<and>
   heartbeatTicker (fst (flush ex_oor ex_server (const_transport None None None None) ex_peer)) =
     Some 100000000 \<and>
   prevLogIndex (fst (flush ex_oor ex_server (const_transport None None None None) ex_peer)) =
     10 \<and>
   failedHeartbeats (flushes ex_oor ex_peer
     [(ex_server, const_transport None None None None),
      (ex_server, const_transport None None None None),
      (ex_server, const_transport None None None None)]) = 3 \<and>
   heartbeatTicker (flushes ex_oor ex_peer
     [(ex_server, const_transport None None None None),
      (ex_server, const_transport None None None None),
      (ex_server, const_transport None None None None)]) = Some 400000000 \<and>
   prevLogIndex (flushes ex_oor ex_peer
     [(ex_server, const_transport None None None None),
      (ex_server, const_transport None None None None),
      (ex_server, const_transport None None None None)]) = 10 \<and>
   SendAppendEntriesRequest
     (const_transport (Some (ex_append_response True 3 11 12)) None None None)
     ex_server ex_peer_backed_off ex_request = Some (ex_append_response True 3 11 12) \<and>
   failedHeartbeats (fst (flush ex_oor ex_server
     (const_transport (Some (ex_append_response True 3 11 12)) None None None)
     ex_peer_backed_off)) = 0 \<and>
   heartbeatTicker (fst (flush ex_oor ex_server
     (const_transport (Some (ex_append_response True 3 11 12)) None None None)
     ex_peer_backed_off)) = Some 50000000"
proof -
  let ?silent = "const_transport None None None None"
  let ?r = "ex_append_response True 3 11 12"
  let ?ok = "const_transport (Some ?r) None None None"
  let ?rounds = "[(ex_server, ?silent), (ex_server, ?silent), (ex_server, ?silent)]"
  have g: "getEntriesAfter ex_server (prevLogIndex ex_peer) (maxLogEntriesPerRequest ex_server) =
     (Some ex_entries, 2)"
    by simp
  have g': "getEntriesAfter ex_server (prevLogIndex ex_peer_backed_off)
     (maxLogEntriesPerRequest ex_server) = (Some ex_entries, 2)"
    by simp
  have n: "SendAppendEntriesRequest ?silent ex_server ex_peer
             (newAppendEntriesRequest (currentTerm ex_server) (prevLogIndex ex_peer) 2
                (log_CommitIndex ex_server) (name ex_server) ex_entries) = None"
    by simp
  have a: "SendAppendEntriesRequest ?ok ex_server ex_peer_backed_off
             (newAppendEntriesRequest (currentTerm ex_server) (prevLogIndex ex_peer_backed_off) 2
                (log_CommitIndex ex_server) (name ex_server) ex_entries) = Some ?r"
    by simp
  have r: "(\<forall>(s', tr') \<in> set ?rounds.
        fst (getEntriesAfter s' (prevLogIndex ex_peer) (maxLogEntriesPerRequest s')) \<noteq> None \<and>
        (\<forall>q r. SendAppendEntriesRequest tr' s' q r = None)) \<and>
      failedHeartbeats ex_peer = 0 \<and> ?rounds \<noteq> [] \<and> length ?rounds \<le> 62"
    by simp
  have lt: "failedHeartbeats ex_peer < 2 ^ 53" "failedHeartbeats ex_peer < 62"
    by simp_all
  have nz: "failedHeartbeats ex_peer_backed_off \<noteq> 0"
    by simp
  have 1: "failedHeartbeats (fst (flush ex_oor ex_server ?silent ex_peer)) =
             failedHeartbeats ex_peer + 1 \<and>
           heartbeatTicker (fst (flush ex_oor ex_server ?silent ex_peer)) =
             time_Tick (heartbeatInterval ex_peer * 2 ^ (failedHeartbeats ex_peer + 1)) \<and>
           prevLogIndex (fst (flush ex_oor ex_server ?silent ex_peer)) = prevLogIndex ex_peer"
    using backoff_on_append_failure [where s = ex_server and p = ex_peer and es = ex_entries and plt = 2
        and tr = ?silent and oor = ex_oor and rounds = ?rounds and resp = ?r] g n lt
    by blast
  have 2: "failedHeartbeats (flushes ex_oor ex_peer ?rounds) = length ?rounds \<and>
           heartbeatTicker (flushes ex_oor ex_peer ?rounds) =
             time_Tick (heartbeatInterval ex_peer * 2 ^ length ?rounds) \<and>
           prevLogIndex (flushes ex_oor ex_peer ?rounds) = prevLogIndex ex_peer"
    using backoff_on_append_failure [where s = ex_server and p = ex_peer and es = ex_entries and plt = 2
        and tr = ?silent and oor = ex_oor and rounds = ?rounds and resp = ?r] r
    by blast
  have 3: "failedHeartbeats (fst (flush ex_oor ex_server ?ok ex_peer_backed_off)) = 0 \<and>
           heartbeatTicker (fst (flush ex_oor ex_server ?ok ex_peer_backed_off)) =
             time_Tick (heartbeatInterval ex_peer_backed_off)"
    using backoff_on_append_failure [where s = ex_server and p = ex_peer_backed_off and es = ex_entries
        and plt = 2 and tr = ?ok and oor = ex_oor and rounds = ?rounds and resp = ?r] g' a nz
    by blast
  show ?thesis
    using 1 2 3 by (simp add: time_Tick_def)
qed

subsection \<open>Stopping the heartbeat loop\<close>

text \<open>
  Claim C8. When the heartbeat loop, after any number of ticks, receives a stop signal with
  \<open>flush = true\<close>, it runs exactly one more flush and returns: what it does is what the ticks
  did followed by that one flush, and nothing that comes after the signal is looked at.
  When the signal carries \<open>flush = false\<close> it returns at once: what it does is what the
  ticks did, with no further flush.
\<close>

theorem heartbeat_stop_flush_once_or_never:
  assumes "\<forall>ev \<in> set ticks. \<exists>d. fst ev = Ticker d"
  shows "heartbeat oor p (ticks @ (StopChan True, s, tr) # rest) =
           (fst (flush oor s tr (fst (heartbeat oor p ticks))),
            fst (snd (heartbeat oor p ticks)) @
              snd (flush oor s tr (fst (heartbeat oor p ticks))),
            Returned) \<and>
         flush_attempts (fst (snd (heartbeat oor p (ticks @ (StopChan True, s, tr) # rest)))) =
           flush_attempts (fst (snd (heartbeat oor p ticks))) + 1 \<and>
         heartbeat oor p (ticks @ (StopChan False, s, tr) # rest) =
           (fst (heartbeat oor p ticks), fst (snd (heartbeat oor p ticks)), Returned) \<and>
         flush_attempts (fst (snd (heartbeat oor p (ticks @ (StopChan False, s, tr) # rest)))) =
           flush_attempts (fst (snd (heartbeat oor p ticks)))"
  by (simp add: heartbeat_def heartbeat_loop_stop [OF assms] split_def Let_def
      flush_attempts_append flush_attempts_flush)

theorem heartbeat_stop_flush_once_or_never_witness:
  "list_all (\<lambda>ev. \<exists>d. fst ev = Ticker d)
     [(Ticker 7, ex_server, const_transport None None None None)] \<and>
   flush_attempts (fst (snd (heartbeat ex_oor ex_peer
     [(Ticker 7, ex_server, const_transport None None None None)]))) = 1 \<and>
   flush_attempts (fst (snd (heartbeat ex_oor ex_peer
     ([(Ticker 7, ex_server, const_transport None None None None)] @
      (StopChan True, ex_server, const_transport None None None None) #
      [(Ticker 9, ex_server, const_transport None None None None)])))) = 2 \<and>
   snd (snd (heartbeat ex_oor ex_peer
     ([(Ticker 7, ex_server, const_transport None None None None)] @
      (StopChan True, ex_server, const_transport None None None None) #
      [(Ticker 9, ex_server, const_transport None None None None)]))) = Returned \<and>
   flush_attempts (fst (snd (heartbeat ex_oor ex_peer
     ([(Ticker 7, ex_server, const_transport None None None None)] @
      (StopChan False, ex_server, const_transport None None None None) #
      [(Ticker 9, ex_server, const_transport None None None None)])))) = 1 \<and>
   snd (snd (heartbeat ex_oor ex_peer
     ([(Ticker 7, ex_server, const_transport None None None None)] @
      (StopChan False, ex_server, const_transport None None None None) #
      [(Ticker 9, ex_server, const_transport None None None None)]))) = Returned"
proof -
  let ?silent = "const_transport None None None None"
  let ?ticks = "[(Ticker 7, ex_server, ?silent)]"
  have h: "\<forall>ev \<in> set ?ticks. \<exists>d. fst ev = Ticker d"
    by simp
  have one: "flush_attempts (fst (snd (heartbeat ex_oor ex_peer ?ticks))) = 1"
    by (simp add: heartbeat_def time_Tick_def split_def Let_def flush_attempts_append
        flush_attempts_flush)
      (simp add: flush_attempts_def)
  note c = heartbeat_stop_flush_once_or_never [OF h, of ex_oor ex_peer ex_server ?silent
      "[(Ticker 9, ex_server, ?silent)]"]
  have t: "flush_attempts (fst (snd (heartbeat ex_oor ex_peer
             (?ticks @ (StopChan True, ex_server, ?silent) # [(Ticker 9, ex_server, ?silent)])))) =
           flush_attempts (fst (snd (heartbeat ex_oor ex_peer ?ticks))) + 1"
    using c by blast
  have f: "flush_attempts (fst (snd (heartbeat ex_oor ex_peer
             (?ticks @ (StopChan False, ex_server, ?silent) # [(Ticker 9, ex_server, ?silent)])))) =
           flush_attempts (fst (snd (heartbeat ex_oor ex_peer ?ticks)))"
    using c by blast
  have st: "snd (snd (heartbeat ex_oor ex_peer
             (?ticks @ (StopChan True, ex_server, ?silent) # [(Ticker 9, ex_server, ?silent)]))) =
           Returned"
    using c by (metis snd_conv)
  have sf: "snd (snd (heartbeat ex_oor ex_peer
             (?ticks @ (StopChan False, ex_server, ?silent) # [(Ticker 9, ex_server, ?silent)]))) =
           Returned"
    using c by (metis snd_conv)
  show ?thesis
    using h one t f st sf by simp
qed

subsection \<open>Vote requests\<close>

text \<open>
  Claim C9. \<open>sendVoteRequest\<close> sends the request with the peer attached. If the transport
  returns a response, that response with the peer attached is sent on the results channel;
  if the transport returns none, nothing is sent on the results channel.
\<close>

theorem sendVoteRequest_delivers_iff_answered:
  "(SendVoteRequest tr s p (req\<lparr>vreq_peer := Some (Name p)\<rparr>) = Some resp \<longrightarrow>
      sendVoteRequest s tr p req =
        [VoteSent (req\<lparr>vreq_peer := Some (Name p)\<rparr>),
         ChanSend (resp\<lparr>vresp_peer := Some (Name p)\<rparr>)]) \<and>
   (SendVoteRequest tr s p (req\<lparr>vreq_peer := Some (Name p)\<rparr>) = None \<longrightarrow>
      sendVoteRequest s tr p req = [VoteSent (req\<lparr>vreq_peer := Some (Name p)\<rparr>)])"
  by (simp add: sendVoteRequest_def Let_def)

theorem sendVoteRequest_delivers_iff_answered_witness:
  "SendVoteRequest (const_transport None None None (Some ex_vote_response)) ex_server ex_peer
     (ex_vote_request\<lparr>vreq_peer := Some (Name ex_peer)\<rparr>) = Some ex_vote_response \<and>
   sendVoteRequest ex_server (const_transport None None None (Some ex_vote_response)) ex_peer
     ex_vote_request =
     [VoteSent \<lparr>vreq_peer = Some ''b'', vreq_Term = 4, vreq_LastLogIndex = 12,
                vreq_LastLogTerm = 3, vreq_CandidateName = ''a''\<rparr>,
      ChanSend \<lparr>vresp_peer = Some ''b'', vresp_Term = 4, vresp_VoteGranted = True\<rparr>] \<and>
   SendVoteRequest (const_transport None None None None) ex_server ex_peer
     (ex_vote_request\<lparr>vreq_peer := Some (Name ex_peer)\<rparr>) = None \<and>
   sendVoteRequest ex_server (const_transport None None None None) ex_peer ex_vote_request =
     [VoteSent \<lparr>vreq_peer = Some ''b'', vreq_Term = 4, vreq_LastLogIndex = 12,
                vreq_LastLogTerm = 3, vreq_CandidateName = ''a''\<rparr>]"
proof -
  note a = sendVoteRequest_delivers_iff_answered [where tr = "const_transport None None None (Some ex_vote_response)"
      and s = ex_server and p = ex_peer and req = ex_vote_request and resp = ex_vote_response]
  note b = sendVoteRequest_delivers_iff_answered [where tr = "const_transport None None None None"
      and s = ex_server and p = ex_peer and req = ex_vote_request and resp = ex_vote_response]
  show ?thesis
    using a b by simp
qed

subsection \<open>Snapshot path: no back-off\<close>

text \<open>
  Claim C10. When a flush takes the snapshot path and the transport gives no response to the
  snapshot offer or to the snapshot-recovery request, \<open>failedHeartbeats\<close> and the ticker
  are unchanged (the peer as a whole is), and no interval-changed event is dispatched.
\<close>

theorem snapshot_failure_no_backoff:
  assumes "getEntriesAfter s (prevLogIndex p) (maxLogEntriesPerRequest s) = (None, plt)"
      and "SendSnapshotRequest tr s p (newSnapshotRequest (name s) (snapshot s)) = None \<or>
           SendSnapshotRecoveryRequest tr s p (newSnapshotRecoveryRequest (name s) (snapshot s))
             = None"
  shows "failedHeartbeats (fst (flush oor s tr p)) = failedHeartbeats p \<and>
         heartbeatTicker (fst (flush oor s tr p)) = heartbeatTicker p \<and>
         (\<forall>e \<in> set (snd (flush oor s tr p)). \<not> is_interval_event e) \<and>
         fst (flush oor s tr p) = p"
proof -
  have f: "flush oor s tr p = sendSnapshotRequest s tr p (newSnapshotRequest (name s) (snapshot s))"
    by (rule flush_None [OF assms(1)])
  have "fst (sendSnapshotRequest s tr p (newSnapshotRequest (name s) (snapshot s))) = p"
    using assms(2)
    by (auto simp add: sendSnapshotRequest_def sendSnapshotRecovery_cases
        split: option.split prod.split)
  then show ?thesis
    unfolding f using snapshot_path_effects(1) by simp
qed

theorem snapshot_failure_no_backoff_witness:
  "getEntriesAfter ex_server (prevLogIndex ex_peer_behind) (maxLogEntriesPerRequest ex_server) =
     (None, 0) \<and>
   SendSnapshotRequest (const_transport None None None None) ex_server ex_peer_behind
     (newSnapshotRequest (name ex_server) (snapshot ex_server)) = None \<and>
   fst (flush ex_oor ex_server (const_transport None None None None) ex_peer_behind) =
     ex_peer_behind \<and>
   list_all (\<lambda>e. \<not> is_interval_event e)
     (snd (flush ex_oor ex_server (const_transport None None None None) ex_peer_behind)) \<and>
   SendSnapshotRecoveryRequest (const_transport None (Some \<lparr>sresp_Success = True\<rparr>) None None)
     ex_server ex_peer_behind
     (newSnapshotRecoveryRequest (name ex_server) (snapshot ex_server)) = None \<and>
   failedHeartbeats (fst (flush ex_oor ex_server
     (const_transport None (Some \<lparr>sresp_Success = True\<rparr>) None None) ex_peer_behind)) = 3 \<and>
   heartbeatTicker (fst (flush ex_oor ex_server
     (const_transport None (Some \<lparr>sresp_Success = True\<rparr>) None None) ex_peer_behind)) =
     Some 400000000 \<and>
   list_all (\<lambda>e. \<not> is_interval_event e)
     (snd (flush ex_oor ex_server
        (const_transport None (Some \<lparr>sresp_Success = True\<rparr>) None None) ex_peer_behind))"
proof -
  let ?silent = "const_transport None None None None"
  let ?half = "const_transport None (Some \<lparr>sresp_Success = True\<rparr>) None None"
  have g: "getEntriesAfter ex_server (prevLogIndex ex_peer_behind)
             (maxLogEntriesPerRequest ex_server) = (None, 0)"
    by simp
  have a: "SendSnapshotRequest ?silent ex_server ex_peer_behind
             (newSnapshotRequest (name ex_server) (snapshot ex_server)) = None \<or>
           SendSnapshotRecoveryRequest ?silent ex_server ex_peer_behind
             (newSnapshotRecoveryRequest (name ex_server) (snapshot ex_server)) = None"
    by simp
  have b: "SendSnapshotRequest ?half ex_server ex_peer_behind
             (newSnapshotRequest (name ex_server) (snapshot ex_server)) = None \<or>
           SendSnapshotRecoveryRequest ?half ex_server ex_peer_behind
             (newSnapshotRecoveryRequest (name ex_server) (snapshot ex_server)) = None"
    by simp
  show ?thesis
    using snapshot_failure_no_backoff [OF g a, of ex_oor]
      snapshot_failure_no_backoff [OF g b, of ex_oor]
    by (simp add: list_all_iff)
qed

end
